theory Spec2Isabelle
  imports Main "HOL-Library.Char_ord" "HOL-Library.List_Lexorder" "HOL-Library.Multiset"
begin

section \<open>Documents\<close>

text \<open>
  The hero schema of \<^verbatim>\<open>src/models/hero.js\<close>. An identifier of the store is an ObjectId,
  twelve bytes; a date is a number of milliseconds. The schema's option
  \<^verbatim>\<open>timestamps: true\<close> adds the two dates \<^verbatim>\<open>createdAt\<close> and \<^verbatim>\<open>updatedAt\<close>. Field names
  that Isabelle reserves or that would hide a variable carry a prefix.
\<close>

type_synonym objectid = "nat list"

record powerstats_doc =
  intelligence :: int
  strength :: int
  speed :: int
  durability :: int
  power_stat :: int
  combat :: int

record appearance_doc =
  gender :: string
  race :: string
  height :: "string list"
  weight :: "string list"
  eyeColor :: string
  hairColor :: string

record biography_doc =
  fullName :: string
  alterEgos :: string
  aliases :: "string list"
  placeOfBirth :: string
  firstAppearance :: string
  publisher :: string
  alignment :: string

record work_doc =
  occupation :: string
  work_base :: string

record connections_doc =
  groupAffiliation :: string
  relatives :: string

record images_doc =
  img_xs :: string
  img_sm :: string
  img_md :: string
  img_lg :: string

record hero_doc =
  hero_id :: objectid
  original_id :: int
  name :: string
  slug :: string
  powerstats :: powerstats_doc
  appearance :: appearance_doc
  biography :: biography_doc
  work :: work_doc
  connections :: connections_doc
  images :: images_doc
  hero_createdAt :: int
  hero_updatedAt :: int

text \<open>
  Modelled from the spec: the comment schema (\<^verbatim>\<open>models/comment\<close>, required by the router,
  is not among the sources). A comment holds a reference to its hero's identifier, a
  free-text body and the creation and update dates the store maintains, under the names
  \<^verbatim>\<open>timestamps: true\<close> gives them in the hero schema. The body is absent when the request
  had none.
\<close>

record comment_doc =
  comment_id :: objectid
  comment_hero :: objectid
  comment_text :: "string option"
  createdAt :: int
  updatedAt :: int

section \<open>The document store\<close>

text \<open>
  The store is the router's external collaborator. A value of \<open>db\<close> is the store as one
  request meets it. Each of its two collections is a list in the order in which the
  store reads the documents while it serves that request: commonly the order of
  insertion, but the store promises no order among documents whose sort keys are equal,
  and none that lasts from one request to the next. Two requests on one store state may
  therefore meet the same documents in different orders (\<open>same_store\<close> below); what holds
  of several requests is stated over such views, never by reading one list twice.
  \<open>strictQuery\<close> is the client library's setting of that name: when it is set, a filter
  condition on a path the schema does not declare is removed from the query before it is
  sent. \<open>faults\<close> is the fate of the store operations of the request: its n-th entry says
  that the n-th operation fails to reach the store.
\<close>

record db =
  heroes :: "hero_doc list"
  comments :: "comment_doc list"
  strictQuery :: bool
  faults :: "bool list"

datatype store_error = CastError | BadValue | NetworkError

definition fails :: "db \<Rightarrow> nat \<Rightarrow> bool" where
  "fails d n = (n < length (faults d) \<and> faults d ! n)"

text \<open>Two views of one store state: the same documents, read in any two orders.\<close>

definition same_store :: "db \<Rightarrow> db \<Rightarrow> bool" where
  "same_store a b =
     (mset (heroes a) = mset (heroes b) \<and> mset (comments a) = mset (comments b) \<and>
      strictQuery a = strictQuery b)"

subsection \<open>Values and their order\<close>

text \<open>
  The value a document has at a path, as far as the store compares it: a missing path
  reads as null. Values of different types are ordered by type (null, numbers, strings,
  identifiers, dates), values of one type by their content; strings compare byte by
  byte, which is the store's default collation.
\<close>

datatype bson = BNull | BNum int | BStr string | BId objectid | BDate int

fun bson_rank :: "bson \<Rightarrow> nat" where
  "bson_rank BNull = 0"
| "bson_rank (BNum _) = 1"
| "bson_rank (BStr _) = 2"
| "bson_rank (BId _) = 3"
| "bson_rank (BDate _) = 4"

fun bson_le :: "bson \<Rightarrow> bson \<Rightarrow> bool" where
  "bson_le (BNum a) (BNum b) = (a \<le> b)"
| "bson_le (BStr a) (BStr b) = (a \<le> b)"
| "bson_le (BId a) (BId b) = (a \<le> b)"
| "bson_le (BDate a) (BDate b) = (a \<le> b)"
| "bson_le x y = (bson_rank x \<le> bson_rank y)"

instantiation bson :: linorder
begin

definition less_eq_bson :: "bson \<Rightarrow> bson \<Rightarrow> bool" where
  "less_eq_bson x y = bson_le x y"

definition less_bson :: "bson \<Rightarrow> bson \<Rightarrow> bool" where
  "less_bson x y = (bson_le x y \<and> \<not> bson_le y x)"

instance
proof
  fix x y z :: bson
  show "(x < y) = (x \<le> y \<and> \<not> y \<le> x)"
    by (simp add: less_bson_def less_eq_bson_def)
  show "x \<le> x"
    by (cases x) (simp_all add: less_eq_bson_def)
  show "x \<le> y \<Longrightarrow> y \<le> z \<Longrightarrow> x \<le> z"
    by (cases x; cases y; cases z) (simp_all add: less_eq_bson_def)
  show "x \<le> y \<Longrightarrow> y \<le> x \<Longrightarrow> x = y"
    by (cases x; cases y) (simp_all add: less_eq_bson_def)
  show "x \<le> y \<or> y \<le> x"
    by (cases x; cases y) (auto simp add: less_eq_bson_def)
qed

end

subsection \<open>Paths of a document\<close>

text \<open>
  The scalar paths of a hero document. A path that the document does not have reads as
  null: the six statistics live under \<^verbatim>\<open>powerstats\<close>, so the document has a path
  \<^verbatim>\<open>powerstats.speed\<close> and none called \<^verbatim>\<open>speed\<close>. The three array-valued paths (height,
  weight, aliases) are read by no handler and are not compared here.
\<close>

definition hero_paths :: "(string \<times> (hero_doc \<Rightarrow> bson)) list" where
  "hero_paths =
    [(''_id'', \<lambda>h. BId (hero_id h)),
     (''original_id'', \<lambda>h. BNum (original_id h)),
     (''name'', \<lambda>h. BStr (name h)),
     (''slug'', \<lambda>h. BStr (slug h)),
     (''powerstats.intelligence'', \<lambda>h. BNum (intelligence (powerstats h))),
     (''powerstats.strength'', \<lambda>h. BNum (strength (powerstats h))),
     (''powerstats.speed'', \<lambda>h. BNum (speed (powerstats h))),
     (''powerstats.durability'', \<lambda>h. BNum (durability (powerstats h))),
     (''powerstats.power'', \<lambda>h. BNum (power_stat (powerstats h))),
     (''powerstats.combat'', \<lambda>h. BNum (combat (powerstats h))),
     (''appearance.gender'', \<lambda>h. BStr (gender (appearance h))),
     (''appearance.race'', \<lambda>h. BStr (race (appearance h))),
     (''appearance.eyeColor'', \<lambda>h. BStr (eyeColor (appearance h))),
     (''appearance.hairColor'', \<lambda>h. BStr (hairColor (appearance h))),
     (''biography.fullName'', \<lambda>h. BStr (fullName (biography h))),
     (''biography.alterEgos'', \<lambda>h. BStr (alterEgos (biography h))),
     (''biography.placeOfBirth'', \<lambda>h. BStr (placeOfBirth (biography h))),
     (''biography.firstAppearance'', \<lambda>h. BStr (firstAppearance (biography h))),
     (''biography.publisher'', \<lambda>h. BStr (publisher (biography h))),
     (''biography.alignment'', \<lambda>h. BStr (alignment (biography h))),
     (''work.occupation'', \<lambda>h. BStr (occupation (work h))),
     (''work.base'', \<lambda>h. BStr (work_base (work h))),
     (''connections.groupAffiliation'', \<lambda>h. BStr (groupAffiliation (connections h))),
     (''connections.relatives'', \<lambda>h. BStr (relatives (connections h))),
     (''images.xs'', \<lambda>h. BStr (img_xs (images h))),
     (''images.sm'', \<lambda>h. BStr (img_sm (images h))),
     (''images.md'', \<lambda>h. BStr (img_md (images h))),
     (''images.lg'', \<lambda>h. BStr (img_lg (images h))),
     (''createdAt'', \<lambda>h. BDate (hero_createdAt h)),
     (''updatedAt'', \<lambda>h. BDate (hero_updatedAt h))]"

definition hero_field :: "string \<Rightarrow> hero_doc \<Rightarrow> bson" where
  "hero_field path h = (case map_of hero_paths path of None \<Rightarrow> BNull | Some get \<Rightarrow> get h)"

text \<open>The paths the hero schema declares: the scalar ones and the three arrays.\<close>

definition in_hero_schema :: "string \<Rightarrow> bool" where
  "in_hero_schema path =
     (path \<in> set (map fst hero_paths) \<or>
      path \<in> set [''appearance.height'', ''appearance.weight'', ''biography.aliases''])"

definition comment_field :: "string \<Rightarrow> comment_doc \<Rightarrow> bson" where
  "comment_field path c =
     (if path = ''_id'' then BId (comment_id c)
      else if path = ''hero'' then BId (comment_hero c)
      else if path = ''text'' then (case comment_text c of None \<Rightarrow> BNull | Some t \<Rightarrow> BStr t)
      else if path = ''createdAt'' then BDate (createdAt c)
      else if path = ''updatedAt'' then BDate (updatedAt c)
      else BNull)"

subsection \<open>Identifiers\<close>

text \<open>
  The cast of a request's text to an ObjectId. A text is the list of its bytes.
  Twenty-four hexadecimal digits give the twelve bytes they spell; a text of twelve
  characters that is also twelve bytes long, that is twelve ASCII characters, gives its
  own bytes; every other text is malformed, and the store's client answers it with a cast
  error. Twelve bytes that are not all ASCII spell fewer than twelve characters.
\<close>

definition hex_digit :: "char \<Rightarrow> nat option" where
  "hex_digit c =
     (let n = (of_char c :: nat) in
      if 48 \<le> n \<and> n \<le> 57 then Some (n - 48)
      else if 97 \<le> n \<and> n \<le> 102 then Some (n - 87)
      else if 65 \<le> n \<and> n \<le> 70 then Some (n - 55)
      else None)"

fun hex_bytes :: "string \<Rightarrow> nat list option" where
  "hex_bytes [] = Some []"
| "hex_bytes [c] = None"
| "hex_bytes (c1 # c2 # cs) =
     (case (hex_digit c1, hex_digit c2, hex_bytes cs) of
        (Some a, Some b, Some bs) \<Rightarrow> Some ((16 * a + b) # bs)
      | _ \<Rightarrow> None)"

definition castObjectId :: "string \<Rightarrow> objectid option" where
  "castObjectId s =
     (if length s = 12 \<and> list_all (\<lambda>c. (of_char c :: nat) < 128) s then Some (map of_char s)
      else if length s = 24 then hex_bytes s
      else None)"

subsection \<open>Queries\<close>

text \<open>
  \<^verbatim>\<open>Model.findById(id).exec(callback)\<close> as the n-th store operation of a request: the
  callback's pair (err, doc) as a sum. The cast is made before the store is reached; an
  identifier that no document has gives no error and a null document.
\<close>

definition findById :: "db \<Rightarrow> nat \<Rightarrow> string \<Rightarrow> store_error + hero_doc option" where
  "findById d n ident =
     (case castObjectId ident of
        None \<Rightarrow> Inl CastError
      | Some oid \<Rightarrow>
          if fails d n then Inl NetworkError
          else Inr (find (\<lambda>h. hero_id h = oid) (heroes d)))"

text \<open>
  A sort on one path, ascending (1) or descending (-1). Documents with equal keys come
  out in the order in which the store read them for this request, which is the order of
  the list and is the request's own (see \<open>db\<close>): the sort adds no order of its own among
  them. No sort leaves the order in which the store read the collection.
\<close>

definition sort_docs :: "('a \<Rightarrow> bson) \<Rightarrow> int \<Rightarrow> 'a list \<Rightarrow> 'a list" where
  "sort_docs key dir xs = (if dir = 1 then sort_key key xs else rev (sort_key key (rev xs)))"

text \<open>
  \<^verbatim>\<open>skip(k).limit(l)\<close>: the store refuses a negative skip; a limit of 0 is no limit and a
  negative limit counts as its absolute value.
\<close>

definition skip_limit :: "int \<Rightarrow> int \<Rightarrow> 'a list \<Rightarrow> store_error + 'a list" where
  "skip_limit k l xs =
     (if k < 0 then Inl BadValue
      else Inr (if l = 0 then drop (nat k) xs else take (nat \<bar>l\<bar>) (drop (nat k) xs)))"

text \<open>
  A condition \<^verbatim>\<open>where(path).gte(v)\<close> holds of a document whose value at the path is a
  number at least v; a document without the path does not satisfy it. Under
  \<open>strictQuery\<close> the conditions on paths outside the schema are dropped first.
\<close>

fun gte_holds :: "hero_doc \<Rightarrow> string \<times> int \<Rightarrow> bool" where
  "gte_holds h (path, v) = (case hero_field path h of BNum a \<Rightarrow> v \<le> a | _ \<Rightarrow> False)"

definition cast_conditions :: "bool \<Rightarrow> (string \<times> int) list \<Rightarrow> (string \<times> int) list" where
  "cast_conditions strict conds =
     (if strict then filter (\<lambda>c. in_hero_schema (fst c)) conds else conds)"

text \<open>
  \<^verbatim>\<open>Hero.find(conds).sort(srt).skip(k).limit(l).exec(callback)\<close> as the n-th store
  operation of a request; \<open>srt\<close> is the path and direction of the sort, if any.
\<close>

definition find_heroes ::
  "db \<Rightarrow> nat \<Rightarrow> (string \<times> int) list \<Rightarrow> (string \<times> int) option \<Rightarrow> int \<Rightarrow> int \<Rightarrow>
   store_error + hero_doc list" where
  "find_heroes d n conds srt k l =
     (if fails d n then Inl NetworkError
      else
        let matching = filter (\<lambda>h. list_all (gte_holds h) (cast_conditions (strictQuery d) conds))
                         (heroes d);
            ordered = (case srt of None \<Rightarrow> matching
                       | Some (path, dir) \<Rightarrow> sort_docs (hero_field path) dir matching)
        in skip_limit k l ordered)"

text \<open>
  \<^verbatim>\<open>Comment.find({hero: oid}).sort(srt).skip(k).limit(l).exec(callback)\<close>, likewise.
\<close>

definition find_comments ::
  "db \<Rightarrow> nat \<Rightarrow> objectid \<Rightarrow> (string \<times> int) \<Rightarrow> int \<Rightarrow> int \<Rightarrow> store_error + comment_doc list" where
  "find_comments d n oid srt k l =
     (if fails d n then Inl NetworkError
      else
        let matching = filter (\<lambda>c. comment_field ''hero'' c = BId oid) (comments d)
        in skip_limit k l (sort_docs (comment_field (fst srt)) (snd srt) matching))"

text \<open>\<^verbatim>\<open>comment.save()\<close>, as the n-th store operation: the comment joins its collection.\<close>

definition save_comment :: "db \<Rightarrow> nat \<Rightarrow> comment_doc \<Rightarrow> store_error + (comment_doc \<times> db)" where
  "save_comment d n c =
     (if fails d n then Inl NetworkError
      else Inr (c, d\<lparr>comments := comments d @ [c]\<rparr>))"

subsection \<open>Sort arguments\<close>

text \<open>
  The query builder reads the value given for a path in \<^verbatim>\<open>sort({path: value})\<close> as
  \<^verbatim>\<open>String(value || 1).toLowerCase()\<close> and looks it up in a table of six spellings of a
  direction, which is a plain object. A spelling of the table gives its direction. The
  two names that every plain object inherits, \<^verbatim>\<open>constructor\<close> and \<^verbatim>\<open>__proto__\<close>, pass the
  lookup too, with a value that is no direction: the query is built, and the store
  refuses it when it is run. On any other value \<^verbatim>\<open>sort\<close> throws a TypeError at once. A
  string argument \<^verbatim>\<open>sort('-path')\<close> names a path, descending when a minus sign leads.
\<close>

datatype sort_arg = Direction int | Unchecked

definition lower :: "char \<Rightarrow> char" where
  "lower c = (let n = (of_char c :: nat) in if 65 \<le> n \<and> n \<le> 90 then char_of (n + 32) else c)"

definition sort_value :: "string option \<Rightarrow> sort_arg option" where
  "sort_value v =
     (let val = map lower (case v of None \<Rightarrow> ''1'' | Some s \<Rightarrow> if s = [] then ''1'' else s) in
      if val = ''1'' \<or> val = ''asc'' \<or> val = ''ascending'' then Some (Direction 1)
      else if val = ''-1'' \<or> val = ''desc'' \<or> val = ''descending'' then Some (Direction (- 1))
      else if val = ''constructor'' \<or> val = ''__proto__'' then Some Unchecked
      else None)"

definition sort_string :: "string \<Rightarrow> string \<times> int" where
  "sort_string s = (case s of [] \<Rightarrow> ([], 1) | c # cs \<Rightarrow> if c = CHR ''-'' then (cs, - 1) else (s, 1))"

section \<open>The router\<close>

text \<open>
  \<^verbatim>\<open>src/routers/hero.js\<close>. A handler either answers with \<^verbatim>\<open>res.json\<close> (status 200 and a
  JSON body) or ends in an exception that nothing catches, and then the request gets no
  response. The page of the query string is the integer its text denotes, absent when
  the parameter is missing or empty; a present text is truthy, the text 0 included.
\<close>

datatype js_exception = ReferenceError string | TypeError string

datatype body =
  JNull
| JHero hero_doc
| JHeroes "hero_doc list"
| JComment comment_doc
| JComments "comment_doc list"

datatype outcome = Response nat body | Uncaught js_exception

definition DEFAULT_HEROES_PER_PAGE :: int where
  "DEFAULT_HEROES_PER_PAGE = 10"

definition DEFAULT_COMMENTS_PER_PAGE :: int where
  "DEFAULT_COMMENTS_PER_PAGE = 3"

definition res_json :: "body \<Rightarrow> outcome" where
  "res_json b = Response 200 b"

text \<open>
  \<^verbatim>\<open>handleError(err)\<close>: the module declares and imports no binding of that name, so
  evaluating the call raises a ReferenceError, whatever the error is.
\<close>

definition call_handleError :: "store_error \<Rightarrow> outcome" where
  "call_handleError err = Uncaught (ReferenceError ''handleError is not defined'')"

text \<open>\<^verbatim>\<open>req.query.page || 1\<close>\<close>

definition page_param :: "int option \<Rightarrow> int" where
  "page_param q = (case q of None \<Rightarrow> 1 | Some p \<Rightarrow> p)"

text \<open>
  The callback \<^verbatim>\<open>(err, hero) => { if (err) return handleError(err); res.json(hero) }\<close>,
  which the three handlers that list heroes each spell out.
\<close>

definition heroes_callback :: "store_error + hero_doc list \<Rightarrow> outcome" where
  "heroes_callback r =
     (case r of Inl err \<Rightarrow> call_handleError err | Inr hero \<Rightarrow> res_json (JHeroes hero))"

subsection \<open>GET /heroes\<close>

text \<open>
  The query \<^verbatim>\<open>Hero.find({}).sort({name: ...}).skip((page-1)*10).limit(10)\<close>, with the
  direction the value given to \<^verbatim>\<open>sort\<close> stands for. POST /search/heroes/by-name builds
  the same query, with the direction of its own value. A query whose sort value passed
  the builder unchecked is refused by the store when it is run: its callback gets an
  error.
\<close>

definition refused_query :: "store_error + hero_doc list" where
  "refused_query = Inl BadValue"

definition heroes_query :: "db \<Rightarrow> int \<Rightarrow> int option \<Rightarrow> store_error + hero_doc list" where
  "heroes_query d dir qpage =
     (let page = page_param qpage in
      find_heroes d 0 [] (Some (''name'', dir))
        ((page - 1) * DEFAULT_HEROES_PER_PAGE) DEFAULT_HEROES_PER_PAGE)"

definition get_heroes :: "db \<Rightarrow> int option \<Rightarrow> outcome" where
  "get_heroes d qpage =
     (case sort_value (Some ''asc'') of
        None \<Rightarrow> Uncaught (TypeError ''Invalid sort value'')
      | Some Unchecked \<Rightarrow> heroes_callback refused_query
      | Some (Direction dir) \<Rightarrow> heroes_callback (heroes_query d dir qpage))"

subsection \<open>GET /heroes/:id\<close>

definition hero_callback :: "store_error + hero_doc option \<Rightarrow> outcome" where
  "hero_callback r =
     (case r of
        Inl err \<Rightarrow> call_handleError err
      | Inr hero \<Rightarrow> res_json (case hero of None \<Rightarrow> JNull | Some h \<Rightarrow> JHero h))"

definition get_hero :: "db \<Rightarrow> string \<Rightarrow> outcome" where
  "get_hero d ident = hero_callback (findById d 0 ident)"

subsection \<open>POST /search/heroes/by-name\<close>

text \<open>
  The body's \<^verbatim>\<open>query\<close> is handed to \<^verbatim>\<open>sort\<close> as the value for the path \<^verbatim>\<open>name\<close>; the filter
  is the empty one, as in GET /heroes.
\<close>

definition search_by_name :: "db \<Rightarrow> string option \<Rightarrow> int option \<Rightarrow> outcome" where
  "search_by_name d query qpage =
     (case sort_value query of
        None \<Rightarrow> Uncaught (TypeError ''Invalid sort value'')
      | Some Unchecked \<Rightarrow> heroes_callback refused_query
      | Some (Direction dir) \<Rightarrow> heroes_callback (heroes_query d dir qpage))"

subsection \<open>POST /search/heroes/by-min-stats\<close>

record stats_body =
  q_intelligence :: "int option"
  q_strength :: "int option"
  q_speed :: "int option"
  q_durability :: "int option"
  q_power :: "int option"
  q_combat :: "int option"

text \<open>\<^verbatim>\<open>req.body.field || 0\<close>\<close>

definition or_zero :: "int option \<Rightarrow> int" where
  "or_zero v = (case v of None \<Rightarrow> 0 | Some n \<Rightarrow> if n = 0 then 0 else n)"

definition min_stats_query :: "db \<Rightarrow> stats_body \<Rightarrow> int option \<Rightarrow> store_error + hero_doc list" where
  "min_stats_query d b qpage =
     (let intelligence = or_zero (q_intelligence b);
          strength = or_zero (q_strength b);
          speed = or_zero (q_speed b);
          durability = or_zero (q_durability b);
          power = or_zero (q_power b);
          combat = or_zero (q_combat b);
          page = page_param qpage
      in find_heroes d 0
           [(''intelligence'', intelligence), (''strength'', strength), (''speed'', speed),
            (''durability'', durability), (''power'', power), (''combat'', combat)]
           None ((page - 1) * DEFAULT_HEROES_PER_PAGE) DEFAULT_HEROES_PER_PAGE)"

definition search_by_min_stats :: "db \<Rightarrow> stats_body \<Rightarrow> int option \<Rightarrow> outcome" where
  "search_by_min_stats d b qpage = heroes_callback (min_stats_query d b qpage)"

subsection \<open>POST /heroes/:id/comments\<close>

text \<open>
  The handler reads \<^verbatim>\<open>hero._id\<close> without looking at \<^verbatim>\<open>hero\<close>: on a null hero that is a
  TypeError, raised outside the \<^verbatim>\<open>try\<close>. The new comment's identifier and the time of
  the save come from the environment.
\<close>

definition null_hero :: outcome where
  "null_hero = Uncaught (TypeError ''Cannot read properties of null'')"

definition post_comment ::
  "db \<Rightarrow> string \<Rightarrow> string option \<Rightarrow> objectid \<Rightarrow> int \<Rightarrow> outcome \<times> db" where
  "post_comment d ident txt new_id now =
     (case findById d 0 ident of
        Inl err \<Rightarrow> (call_handleError err, d)
      | Inr None \<Rightarrow> (null_hero, d)
      | Inr (Some hero) \<Rightarrow>
          (let comment = \<lparr>comment_id = new_id, comment_hero = hero_id hero, comment_text = txt,
                           createdAt = now, updatedAt = now\<rparr>
           in case save_comment d 1 comment of
                Inl err \<Rightarrow> (call_handleError err, d)
              | Inr (saveComment, d') \<Rightarrow> (res_json (JComment saveComment), d')))"

subsection \<open>GET /heroes/:id/comments\<close>

definition comments_query :: "db \<Rightarrow> hero_doc \<Rightarrow> int option \<Rightarrow> store_error + comment_doc list" where
  "comments_query d hero qpage =
     (let page = page_param qpage in
      find_comments d 1 (hero_id hero) (sort_string ''-timestamps'')
        ((page - 1) * DEFAULT_COMMENTS_PER_PAGE) DEFAULT_COMMENTS_PER_PAGE)"

definition comments_callback :: "store_error + comment_doc list \<Rightarrow> outcome" where
  "comments_callback r =
     (case r of Inl err \<Rightarrow> call_handleError err | Inr comment \<Rightarrow> res_json (JComments comment))"

definition get_comments :: "db \<Rightarrow> string \<Rightarrow> int option \<Rightarrow> outcome" where
  "get_comments d ident qpage =
     (case findById d 0 ident of
        Inl err \<Rightarrow> call_handleError err
      | Inr None \<Rightarrow> null_hero
      | Inr (Some hero) \<Rightarrow> comments_callback (comments_query d hero qpage))"

section \<open>Sample documents\<close>

definition sample_stats :: "int \<Rightarrow> int \<Rightarrow> powerstats_doc" where
  "sample_stats i s =
     \<lparr>intelligence = i, strength = 100, speed = s, durability = 100, power_stat = 100,
      combat = 100\<rparr>"

definition sample_hero :: "objectid \<Rightarrow> string \<Rightarrow> powerstats_doc \<Rightarrow> hero_doc" where
  "sample_hero oid nm st =
     \<lparr>hero_id = oid, original_id = 1, name = nm, slug = nm, powerstats = st,
      appearance = \<lparr>gender = [], race = [], height = [], weight = [], eyeColor = [],
                    hairColor = []\<rparr>,
      biography = \<lparr>fullName = [], alterEgos = [], aliases = [], placeOfBirth = [],
                   firstAppearance = [], publisher = [], alignment = []\<rparr>,
      work = \<lparr>occupation = [], work_base = []\<rparr>,
      connections = \<lparr>groupAffiliation = [], relatives = []\<rparr>,
      images = \<lparr>img_xs = [], img_sm = [], img_md = [], img_lg = []\<rparr>,
      hero_createdAt = 0, hero_updatedAt = 0\<rparr>"

definition oid_of :: "nat \<Rightarrow> objectid" where
  "oid_of n = replicate 11 0 @ [n]"

definition flash :: hero_doc where
  "flash = sample_hero (oid_of 1) ''Flash'' (sample_stats 90 100)"

definition batman :: hero_doc where
  "batman = sample_hero (oid_of 2) ''Batman'' (sample_stats 100 30)"

definition two_heroes :: db where
  "two_heroes = \<lparr>heroes = [flash, batman], comments = [], strictQuery = True, faults = []\<rparr>"

text \<open>Twelve heroes, stored from the longest name to the shortest.\<close>

definition dozen :: db where
  "dozen =
     \<lparr>heroes = map (\<lambda>n. sample_hero (oid_of n) (replicate (12 - n) CHR ''a'') (sample_stats 50 50))
                 [0..<12],
      comments = [], strictQuery = True, faults = []\<rparr>"

text \<open>
  Eleven heroes of one name, and the same store as a second request reads it: in the
  opposite order.
\<close>

definition twin :: "nat \<Rightarrow> hero_doc" where
  "twin n = sample_hero (oid_of n) ''Batman'' (sample_stats 50 50)"

definition same11 :: db where
  "same11 = \<lparr>heroes = map twin [0..<11], comments = [], strictQuery = True, faults = []\<rparr>"

definition same11_reread :: db where
  "same11_reread = same11\<lparr>heroes := rev (heroes same11)\<rparr>"

text \<open>The twelve heroes as another request reads them.\<close>

definition dozen_reread :: db where
  "dozen_reread = dozen\<lparr>heroes := rev (heroes dozen)\<rparr>"

definition comment_at :: "nat \<Rightarrow> int \<Rightarrow> comment_doc" where
  "comment_at n t =
     \<lparr>comment_id = oid_of n, comment_hero = oid_of 1, comment_text = Some ''hi'',
      createdAt = t, updatedAt = t\<rparr>"

definition commented :: db where
  "commented = two_heroes\<lparr>comments := [comment_at 11 1000, comment_at 12 2000]\<rparr>"

definition unreachable :: db where
  "unreachable = two_heroes\<lparr>faults := [True]\<rparr>"

definition lost_after_lookup :: db where
  "lost_after_lookup = two_heroes\<lparr>faults := [False, True]\<rparr>"

definition no_stats :: stats_body where
  "no_stats =
     \<lparr>q_intelligence = None, q_strength = None, q_speed = None, q_durability = None,
      q_power = None, q_combat = None\<rparr>"

text \<open>The body \<^verbatim>\<open>{"speed": 100, "intelligence": 95}\<close>.\<close>

definition stats_95_100 :: stats_body where
  "stats_95_100 = no_stats\<lparr>q_intelligence := Some 95, q_speed := Some 100\<rparr>"

section \<open>Reading responses and the specification's predicates\<close>

text \<open>The heroes and the comments a request was answered with: none without a response.\<close>

fun heroes_of :: "outcome \<Rightarrow> hero_doc list" where
  "heroes_of (Response _ (JHeroes hs)) = hs"
| "heroes_of _ = []"

fun comments_of :: "outcome \<Rightarrow> comment_doc list" where
  "comments_of (Response _ (JComments cs)) = cs"
| "comments_of _ = []"

text \<open>
  The specification's prefix match: the name, lower-cased, starts with the query,
  lower-cased.
\<close>

definition spec_name_starts_with :: "string \<Rightarrow> hero_doc \<Rightarrow> bool" where
  "spec_name_starts_with q h = (take (length q) (map lower (name h)) = map lower q)"

text \<open>
  The specification's threshold match: each of the six statistics is at least the
  query's value, an absent one counting as 0.
\<close>

definition spec_meets_min_stats :: "stats_body \<Rightarrow> hero_doc \<Rightarrow> bool" where
  "spec_meets_min_stats b h =
     (or_zero (q_intelligence b) \<le> intelligence (powerstats h) \<and>
      or_zero (q_strength b) \<le> strength (powerstats h) \<and>
      or_zero (q_speed b) \<le> speed (powerstats h) \<and>
      or_zero (q_durability b) \<le> durability (powerstats h) \<and>
      or_zero (q_power b) \<le> power_stat (powerstats h) \<and>
      or_zero (q_combat b) \<le> combat (powerstats h))"

section \<open>Sorting and windows\<close>

lemma hero_field_name: "hero_field ''name'' = (\<lambda>h. BStr (name h))"
  by (rule ext) (simp add: hero_field_def hero_paths_def)

lemma insort_key_BStr: "insort_key (\<lambda>h. BStr (f h)) x ys = insort_key f x ys"
  by (induction ys) (simp_all add: less_eq_bson_def)

lemma sort_key_BStr: "sort_key (\<lambda>h. BStr (f h)) xs = sort_key f xs"
  by (induction xs) (simp_all add: insort_key_BStr)

lemma sort_docs_name_asc: "sort_docs (hero_field ''name'') 1 hs = sort_key name hs"
  by (simp add: sort_docs_def hero_field_name sort_key_BStr)

lemma heroes_query_page:
  assumes "\<not> fails d 0" and "1 \<le> p"
  shows "heroes_query d dir (Some p) =
         Inr (take 10 (drop (10 * nat (p - 1)) (sort_docs (hero_field ''name'') dir (heroes d))))"
proof -
  have "nat ((p - 1) * 10) = 10 * nat (p - 1)"
    using assms(2) by (simp add: nat_mult_distrib)
  with assms show ?thesis
    by (simp add: heroes_query_def find_heroes_def page_param_def skip_limit_def
        cast_conditions_def DEFAULT_HEROES_PER_PAGE_def)
qed

lemma sort_value_asc: "sort_value (Some ''asc'') = Some (Direction 1)"
  by (simp add: sort_value_def lower_def)

lemma get_heroes_eq:
  assumes "\<not> fails d 0" and "1 \<le> p"
  shows "get_heroes d (Some p) =
         Response 200 (JHeroes (take 10 (drop (10 * nat (p - 1)) (sort_key name (heroes d)))))"
  using assms
  by (simp add: get_heroes_def sort_value_asc heroes_query_page heroes_callback_def res_json_def
      sort_docs_name_asc)

lemma windows_disjoint:
  assumes "distinct xs" and "a < b"
  shows "set (take n (drop (n * a) xs)) \<inter> set (take n (drop (n * b) xs)) = {}"
proof -
  have "n * Suc a \<le> n * b"
    using assms(2) by (intro mult_le_mono2) simp
  then have "n * a + n \<le> n * b"
    by simp
  have "take n (drop (n * a) xs) = drop (n * a) (take (n * a + n) xs)"
    by (simp add: drop_take)
  then have "set (take n (drop (n * a) xs)) \<subseteq> set (take (n * a + n) xs)"
    by (metis set_drop_subset)
  also have "\<dots> \<subseteq> set (take (n * b) xs)"
    using \<open>n * a + n \<le> n * b\<close> by (rule set_take_subset_set_take)
  finally have l: "set (take n (drop (n * a) xs)) \<subseteq> set (take (n * b) xs)" .
  have r: "set (take n (drop (n * b) xs)) \<subseteq> set (drop (n * b) xs)"
    by (rule set_take_subset)
  have "set (take (n * b) xs) \<inter> set (drop (n * b) xs) = {}"
    using assms(1) by (simp add: set_take_disj_set_drop_if_distinct)
  with l r show ?thesis by blast
qed

lemma windows_concat:
  "concat (map (\<lambda>k. take n (drop (n * k) xs)) [0..<m]) = take (n * m) xs"
proof (induction m)
  case 0
  show ?case by simp
next
  case (Suc m)
  have "take (n * Suc m) xs = take (n * m) xs @ take n (drop (n * m) xs)"
    using take_add [of "n * m" n xs] by (simp add: add.commute)
  with Suc show ?case by simp
qed

lemma windows_cover:
  assumes "0 < n"
  shows "(\<Union>k. set (take n (drop (n * k) xs))) = set xs"
proof
  show "(\<Union>k. set (take n (drop (n * k) xs))) \<subseteq> set xs"
    by (auto dest: in_set_takeD in_set_dropD)
next
  show "set xs \<subseteq> (\<Union>k. set (take n (drop (n * k) xs)))"
  proof
    fix x assume "x \<in> set xs"
    then have "x \<in> set (take (n * length xs) xs)"
      using assms by simp
    then have "x \<in> set (concat (map (\<lambda>k. take n (drop (n * k) xs)) [0..<length xs]))"
      by (simp only: windows_concat)
    then show "x \<in> (\<Union>k. set (take n (drop (n * k) xs)))"
      by auto
  qed
qed

lemma heroes_query_default: "heroes_query d dir None = heroes_query d dir (Some 1)"
  by (simp add: heroes_query_def page_param_def)

lemma get_heroes_default: "get_heroes d None = get_heroes d (Some 1)"
  by (simp add: get_heroes_def sort_value_asc heroes_query_default)


lemma sorted_window: "sorted (map f xs) \<Longrightarrow> sorted (map f (take n (drop k xs)))"
  by (simp add: take_map [symmetric] drop_map [symmetric])

section \<open>GET /heroes: the page window\<close>

text \<open>
  Claim C5. For every page p \<ge> 1, when the store answers, GET /heroes responds with the
  window of offset (p - 1) * 10 and limit 10 of the heroes sorted by name ascending: the
  page is sorted by name, the sorted list holds every hero (no filter), a page beyond the
  last is an empty list and not an error, and an omitted page is page 1.
\<close>

theorem get_heroes_page:
  assumes "\<not> fails d 0" and "1 \<le> p"
  shows "get_heroes d (Some p) =
           Response 200 (JHeroes (take 10 (drop (nat ((p - 1) * 10)) (sort_key name (heroes d)))))
         \<and> sorted (map name (heroes_of (get_heroes d (Some p))))
         \<and> mset (sort_key name (heroes d)) = mset (heroes d)
         \<and> (int (length (heroes d)) \<le> (p - 1) * 10 \<longrightarrow>
              get_heroes d (Some p) = Response 200 (JHeroes []))
         \<and> get_heroes d None = get_heroes d (Some 1)"
proof -
  have off: "nat ((p - 1) * 10) = 10 * nat (p - 1)"
    using assms(2) by (simp add: nat_mult_distrib)
  have page: "get_heroes d (Some p) =
      Response 200 (JHeroes (take 10 (drop (nat ((p - 1) * 10)) (sort_key name (heroes d)))))"
    using get_heroes_eq [OF assms] off by simp
  have "sorted (map name (take 10 (drop (nat ((p - 1) * 10)) (sort_key name (heroes d)))))"
    by (rule sorted_window) simp
  then have srt: "sorted (map name (heroes_of (get_heroes d (Some p))))"
    by (simp add: page)
  have beyond: "int (length (heroes d)) \<le> (p - 1) * 10 \<longrightarrow>
      get_heroes d (Some p) = Response 200 (JHeroes [])"
    by (simp add: page)
  from page srt beyond show ?thesis
    by (simp add: get_heroes_default)
qed

theorem get_heroes_page_witness:
  "\<not> fails dozen 0 \<and> (1::int) \<le> 2
   \<and> map name (heroes_of (get_heroes dozen (Some 2))) = [''aaaaaaaaaaa'', ''aaaaaaaaaaaa'']
   \<and> sorted (map name (heroes_of (get_heroes dozen (Some 2))))
   \<and> get_heroes dozen (Some 3) = Response 200 (JHeroes [])"
proof -
  have h: "\<not> fails dozen 0"
    by code_simp
  have len: "int (length (heroes dozen)) \<le> (3 - 1) * 10"
    by code_simp
  have names: "map name (heroes_of (get_heroes dozen (Some 2))) = [''aaaaaaaaaaa'', ''aaaaaaaaaaaa'']"
    by code_simp
  have le2: "(1::int) \<le> 2" and le3: "(1::int) \<le> 3"
    by simp_all
  from get_heroes_page [OF h le2] have "sorted (map name (heroes_of (get_heroes dozen (Some 2))))"
    by blast
  moreover from get_heroes_page [OF h le3] len
  have "get_heroes dozen (Some 3) = Response 200 (JHeroes [])"
    by blast
  ultimately show ?thesis
    using h names by simp
qed

lemma get_heroes_of:
  assumes "\<not> fails d 0" and "1 \<le> p"
  shows "heroes_of (get_heroes d (Some p)) =
         take 10 (drop (10 * nat (p - 1)) (sort_key name (heroes d)))"
  by (simp add: get_heroes_eq [OF assms])

lemma map_from_one: "map f [1..<Suc n] = map (\<lambda>k. f (Suc k)) [0..<n]"
  by (induction n) simp_all

text \<open>
  Where the keys are pairwise distinct, the sorted list does not depend on the order in
  which the documents were read.
\<close>

lemma sort_key_of_view:
  assumes "mset ys = mset xs" and "distinct (map f xs)"
  shows "sort_key f ys = sort_key f xs"
proof (rule map_sorted_distinct_set_unique [where f = f])
  have sets: "set ys = set xs"
    using assms(1) by (rule mset_eq_setD)
  have "mset (map f ys) = mset (map f xs)"
    using assms(1) by simp
  then have dy: "distinct (map f ys)"
    using assms(2) by (metis mset_eq_imp_distinct_iff)
  show "inj_on f (set (sort_key f ys) \<union> set (sort_key f xs))"
    using assms(2) sets by (simp add: distinct_map)
  show "sorted (map f (sort_key f ys))" and "sorted (map f (sort_key f xs))"
    by simp_all
  show "distinct (map f (sort_key f ys))"
    using dy by (simp add: distinct_map)
  show "distinct (map f (sort_key f xs))"
    using assms(2) by (simp add: distinct_map)
  show "set (sort_key f ys) = set (sort_key f xs)"
    using sets by simp
qed

lemma page_of_view:
  assumes "\<forall>p. \<not> fails (v p) 0" and "\<forall>p. same_store (v p) d"
    and "distinct (map name (heroes d))" and "1 \<le> p"
  shows "heroes_of (get_heroes (v p) (Some p)) =
         take 10 (drop (10 * nat (p - 1)) (sort_key name (heroes d)))"
proof -
  have up: "\<not> fails (v p) 0"
    using assms(1) by simp
  have "mset (heroes (v p)) = mset (heroes d)"
    using assms(2) by (simp add: same_store_def)
  then have "sort_key name (heroes (v p)) = sort_key name (heroes d)"
    using assms(3) by (rule sort_key_of_view)
  then show ?thesis
    by (simp add: get_heroes_of [OF up assms(4)])
qed

text \<open>
  Claim C6, as the code has it. Let the heroes of a store state have pairwise distinct
  names, and let \<open>v p\<close> be that state as the request for page p reads it. When the store
  answers, each page p \<ge> 1 of GET /heroes is a response of at most 10 records, two
  different pages share no record, the pages together hold exactly the heroes of the
  store, and the pages 1 to n in order are the name-sorted list as soon as 10 * n reaches
  its length.
\<close>

theorem get_heroes_pages_partition:
  assumes "\<forall>p. \<not> fails (v p) 0" and "\<forall>p. same_store (v p) d"
    and "distinct (map name (heroes d))"
  shows "(\<forall>p\<ge>1. \<exists>hs. get_heroes (v p) (Some p) = Response 200 (JHeroes hs) \<and> length hs \<le> 10)
         \<and> (\<forall>p\<ge>1. \<forall>q\<ge>1. p \<noteq> q \<longrightarrow>
               set (heroes_of (get_heroes (v p) (Some p))) \<inter>
               set (heroes_of (get_heroes (v q) (Some q))) = {})
         \<and> (\<Union>p\<in>{1..}. set (heroes_of (get_heroes (v p) (Some p)))) = set (heroes d)
         \<and> (\<forall>n. length (heroes d) \<le> 10 * n \<longrightarrow>
               concat (map (\<lambda>k. heroes_of (get_heroes (v (int k)) (Some (int k)))) [1..<Suc n]) =
               sort_key name (heroes d))"
proof (intro conjI allI impI)
  fix p :: int
  assume p: "1 \<le> p"
  have up: "\<not> fails (v p) 0"
    using assms(1) by simp
  show "\<exists>hs. get_heroes (v p) (Some p) = Response 200 (JHeroes hs) \<and> length hs \<le> 10"
    by (simp add: get_heroes_eq [OF up p])
next
  have dist: "distinct (sort_key name (heroes d))"
    using assms(3) by (simp add: distinct_map)
  fix p q :: int
  assume p: "1 \<le> p" and q: "1 \<le> q" and pq: "p \<noteq> q"
  have pp: "heroes_of (get_heroes (v p) (Some p)) =
      take 10 (drop (10 * nat (p - 1)) (sort_key name (heroes d)))"
    using page_of_view [OF assms p] .
  have qq: "heroes_of (get_heroes (v q) (Some q)) =
      take 10 (drop (10 * nat (q - 1)) (sort_key name (heroes d)))"
    using page_of_view [OF assms q] .
  from p q pq have "nat (p - 1) < nat (q - 1) \<or> nat (q - 1) < nat (p - 1)"
    by arith
  then show "set (heroes_of (get_heroes (v p) (Some p))) \<inter>
      set (heroes_of (get_heroes (v q) (Some q))) = {}"
  proof
    assume "nat (p - 1) < nat (q - 1)"
    from windows_disjoint [OF dist this, of 10] show ?thesis
      by (simp only: pp qq)
  next
    assume "nat (q - 1) < nat (p - 1)"
    from windows_disjoint [OF dist this, of 10] show ?thesis
      by (simp only: pp qq Int_commute)
  qed
next
  show "(\<Union>p\<in>{1..}. set (heroes_of (get_heroes (v p) (Some p)))) = set (heroes d)"
  proof (intro equalityI subsetI)
    fix x assume "x \<in> (\<Union>p\<in>{1..}. set (heroes_of (get_heroes (v p) (Some p))))"
    then obtain p where p: "1 \<le> p" and "x \<in> set (heroes_of (get_heroes (v p) (Some p)))"
      by auto
    then have "x \<in> set (take 10 (drop (10 * nat (p - 1)) (sort_key name (heroes d))))"
      by (simp only: page_of_view [OF assms p])
    then have "x \<in> set (sort_key name (heroes d))"
      by (blast dest: in_set_takeD in_set_dropD)
    then show "x \<in> set (heroes d)"
      by simp
  next
    fix x assume "x \<in> set (heroes d)"
    then have "x \<in> set (sort_key name (heroes d))"
      by simp
    then have "x \<in> (\<Union>k. set (take 10 (drop (10 * k) (sort_key name (heroes d)))))"
      by (simp only: windows_cover [of 10, simplified])
    then obtain k where k: "x \<in> set (take 10 (drop (10 * k) (sort_key name (heroes d))))"
      by blast
    have one: "1 \<le> int k + 1"
      by simp
    have "x \<in> set (heroes_of (get_heroes (v (int k + 1)) (Some (int k + 1))))"
      using k by (simp add: page_of_view [OF assms one])
    with one show "x \<in> (\<Union>p\<in>{1..}. set (heroes_of (get_heroes (v p) (Some p))))"
      by blast
  qed
next
  fix n :: nat
  assume n: "length (heroes d) \<le> 10 * n"
  have "map (\<lambda>k. heroes_of (get_heroes (v (int k)) (Some (int k)))) [1..<Suc n] =
        map (\<lambda>k. heroes_of (get_heroes (v (int (Suc k))) (Some (int (Suc k))))) [0..<n]"
    by (rule map_from_one)
  also have "\<dots> = map (\<lambda>k. take 10 (drop (10 * k) (sort_key name (heroes d)))) [0..<n]"
  proof (rule map_cong [OF refl])
    fix k
    have "1 \<le> int (Suc k)"
      by simp
    from page_of_view [OF assms this]
    show "heroes_of (get_heroes (v (int (Suc k))) (Some (int (Suc k)))) =
        take 10 (drop (10 * k) (sort_key name (heroes d)))"
      by simp
  qed
  finally have "concat (map (\<lambda>k. heroes_of (get_heroes (v (int k)) (Some (int k)))) [1..<Suc n]) =
      take (10 * n) (sort_key name (heroes d))"
    by (simp only: windows_concat)
  with n show "concat (map (\<lambda>k. heroes_of (get_heroes (v (int k)) (Some (int k)))) [1..<Suc n]) =
      sort_key name (heroes d)"
    by simp
qed

theorem get_heroes_pages_partition_witness:
  "\<not> fails dozen 0 \<and> \<not> fails dozen_reread 0
   \<and> same_store dozen dozen \<and> same_store dozen_reread dozen
   \<and> distinct (map name (heroes dozen))
   \<and> length (heroes_of (get_heroes dozen (Some 1))) = 10
   \<and> length (heroes_of (get_heroes dozen_reread (Some 2))) = 2
   \<and> set (heroes_of (get_heroes dozen (Some 1))) \<inter>
       set (heroes_of (get_heroes dozen_reread (Some 2))) = {}
   \<and> heroes_of (get_heroes dozen (Some 1)) @ heroes_of (get_heroes dozen_reread (Some 2)) =
       sort_key name (heroes dozen)"
proof -
  let ?v = "\<lambda>p :: int. if p = 2 then dozen_reread else dozen"
  have f1: "\<not> fails dozen 0" and f2: "\<not> fails dozen_reread 0"
    by code_simp+
  have s1: "same_store dozen dozen"
    by (simp add: same_store_def)
  have s2: "same_store dozen_reread dozen"
    by (simp add: same_store_def dozen_reread_def)
  have h1: "\<forall>p. \<not> fails (?v p) 0"
    using f1 f2 by simp
  have h2: "\<forall>p. same_store (?v p) dozen"
    using s1 s2 by simp
  have h3: "distinct (map name (heroes dozen))"
    by code_simp
  have l1: "length (heroes_of (get_heroes dozen (Some 1))) = 10"
    by code_simp
  have l2: "length (heroes_of (get_heroes dozen_reread (Some 2))) = 2"
    by code_simp
  have len: "length (heroes dozen) \<le> 10 * 2"
    by code_simp
  note part = get_heroes_pages_partition [of ?v dozen, OF h1 h2 h3]
  have "(1::int) \<le> 1" and "(1::int) \<le> 2" and "(1::int) \<noteq> 2"
    by simp_all
  with part have "set (heroes_of (get_heroes (?v 1) (Some 1))) \<inter>
      set (heroes_of (get_heroes (?v 2) (Some 2))) = {}"
    by blast
  then have apart: "set (heroes_of (get_heroes dozen (Some 1))) \<inter>
      set (heroes_of (get_heroes dozen_reread (Some 2))) = {}"
    by simp
  from part len
  have "concat (map (\<lambda>k. heroes_of (get_heroes (?v (int k)) (Some (int k)))) [1..<Suc 2]) =
      sort_key name (heroes dozen)"
    by blast
  moreover have "[1..<Suc 2] = [1, 2]"
    by (simp add: upt_rec)
  ultimately have "heroes_of (get_heroes dozen (Some 1)) @ heroes_of (get_heroes dozen_reread (Some 2)) =
      sort_key name (heroes dozen)"
    by simp
  with f1 f2 s1 s2 h3 l1 l2 apart show ?thesis
    by (intro conjI)
qed

text \<open>
  Claim C6, as stated, fails where names are tied. The store holds eleven heroes, all
  named Batman; the request for page 1 reads them in one order, the request for page 2
  in the opposite order, and the sort on the name leaves each order as it is. The first
  hero is on both pages and the last hero on neither.
\<close>

theorem get_heroes_pages_counterexample:
  "same_store same11_reread same11
   \<and> heroes_of (get_heroes same11 (Some 1)) = map twin [0..<10]
   \<and> heroes_of (get_heroes same11_reread (Some 2)) = [twin 0]
   \<and> twin 0 \<in> set (heroes_of (get_heroes same11 (Some 1)))
   \<and> twin 10 \<in> set (heroes same11)
   \<and> twin 10 \<notin> set (heroes_of (get_heroes same11 (Some 1)))
   \<and> twin 10 \<notin> set (heroes_of (get_heroes same11_reread (Some 2)))"
proof -
  have "same_store same11_reread same11"
    by (simp add: same_store_def same11_reread_def)
  moreover have "heroes_of (get_heroes same11 (Some 1)) = map twin [0..<10]"
    by code_simp
  moreover have "heroes_of (get_heroes same11_reread (Some 2)) = [twin 0]"
    by code_simp
  moreover have "twin 0 \<in> set (heroes_of (get_heroes same11 (Some 1)))"
    by code_simp
  moreover have "twin 10 \<in> set (heroes same11)"
    by code_simp
  moreover have "twin 10 \<notin> set (heroes_of (get_heroes same11 (Some 1)))"
    by code_simp
  moreover have "twin 10 \<notin> set (heroes_of (get_heroes same11_reread (Some 2)))"
    by code_simp
  ultimately show ?thesis
    by (intro conjI)
qed

section \<open>GET /heroes/:id\<close>

text \<open>
  Twelve bytes that are not twelve characters are no identifier: ten letters and the two
  bytes of one accented letter.
\<close>

lemma castObjectId_twelve_bytes:
  "castObjectId (''abcdefghij'' @ [char_of (195 :: nat), char_of (169 :: nat)]) = None
   \<and> castObjectId ''abcdefghijkl'' = Some [97, 98, 99, 100, 101, 102, 103, 104, 105, 106, 107, 108]"
  by code_simp

lemma findById_unknown:
  assumes "castObjectId i = Some oid" and "\<not> fails d 0" and "oid \<notin> hero_id ` set (heroes d)"
  shows "findById d 0 i = Inr None"
proof -
  have "find (\<lambda>h. hero_id h = oid) (heroes d) = None"
    using assms(3) by (auto simp add: find_None_iff)
  with assms(1,2) show ?thesis
    by (simp add: findById_def)
qed

text \<open>
  Claim C8, as the code has it. For every well-formed identifier that no stored hero has,
  GET /heroes/:id, when the store answers, responds with status 200 and the JSON body
  null.
\<close>

theorem get_hero_unknown_id_null:
  assumes "castObjectId i = Some oid" and "\<not> fails d 0" and "oid \<notin> hero_id ` set (heroes d)"
  shows "get_hero d i = Response 200 JNull"
  by (simp add: get_hero_def findById_unknown [OF assms] hero_callback_def res_json_def)

theorem get_hero_unknown_id_null_witness:
  "castObjectId ''0000000000000000000000ff'' = Some (oid_of 255)
   \<and> \<not> fails dozen 0
   \<and> oid_of 255 \<notin> hero_id ` set (heroes dozen)
   \<and> get_hero dozen ''0000000000000000000000ff'' = Response 200 JNull"
proof -
  have c: "castObjectId ''0000000000000000000000ff'' = Some (oid_of 255)"
    by code_simp
  have f: "\<not> fails dozen 0"
    by code_simp
  have n: "oid_of 255 \<notin> hero_id ` set (heroes dozen)"
    by code_simp
  from c f n get_hero_unknown_id_null [OF c f n] show ?thesis
    by (intro conjI)
qed

text \<open>
  Claim C8, as stated, fails: the identifier below is well formed and belongs to no hero
  of the store, and the answer is a success whose payload is null.
\<close>

theorem get_hero_unknown_id_counterexample:
  "castObjectId ''000000000000000000000003'' = Some (oid_of 3)
   \<and> find (\<lambda>h. hero_id h = oid_of 3) (heroes two_heroes) = None
   \<and> get_hero two_heroes ''000000000000000000000003'' = Response 200 JNull"
  by code_simp

text \<open>
  Claim C7, at a failing input. The text abc is no identifier of the store; the lookup
  reports a cast error, the handler calls \<^verbatim>\<open>handleError\<close>, which nothing defines, and the
  request ends in a ReferenceError without any response, where the claim asks for a
  response of the 400 class.
\<close>

theorem get_hero_malformed_id:
  "castObjectId ''abc'' = None
   \<and> findById two_heroes 0 ''abc'' = Inl CastError
   \<and> get_hero two_heroes ''abc'' = Uncaught (ReferenceError ''handleError is not defined'')"
  by code_simp

section \<open>The error branch\<close>

text \<open>
  Claim C10. In each of the six handlers, whenever a store operation reports an error to
  its callback (or, for the save, to the \<^verbatim>\<open>catch\<close>), the handler calls the undefined
  \<^verbatim>\<open>handleError\<close>: the request ends in a ReferenceError, which is no JSON response, and
  the store is left as it was. A query that the store refuses for its unchecked sort value
  is one such error.
\<close>

theorem error_branch_raises_reference_error:
  "(heroes_query d 1 q = Inl e \<longrightarrow>
      get_heroes d q = Uncaught (ReferenceError ''handleError is not defined''))
   \<and> (findById d 0 i = Inl e \<longrightarrow>
      get_hero d i = Uncaught (ReferenceError ''handleError is not defined''))
   \<and> (sort_value s = Some (Direction dir) \<and> heroes_query d dir q = Inl e \<longrightarrow>
      search_by_name d s q = Uncaught (ReferenceError ''handleError is not defined''))
   \<and> (sort_value s = Some Unchecked \<longrightarrow>
      search_by_name d s q = Uncaught (ReferenceError ''handleError is not defined''))
   \<and> (min_stats_query d b q = Inl e \<longrightarrow>
      search_by_min_stats d b q = Uncaught (ReferenceError ''handleError is not defined''))
   \<and> (findById d 0 i = Inl e \<longrightarrow>
      post_comment d i t n now = (Uncaught (ReferenceError ''handleError is not defined''), d))
   \<and> (findById d 0 i = Inr (Some h) \<and>
      save_comment d 1 \<lparr>comment_id = n, comment_hero = hero_id h, comment_text = t,
                         createdAt = now, updatedAt = now\<rparr> = Inl e \<longrightarrow>
      post_comment d i t n now = (Uncaught (ReferenceError ''handleError is not defined''), d))
   \<and> (findById d 0 i = Inl e \<longrightarrow>
      get_comments d i q = Uncaught (ReferenceError ''handleError is not defined''))
   \<and> (findById d 0 i = Inr (Some h) \<and> comments_query d h q = Inl e \<longrightarrow>
      get_comments d i q = Uncaught (ReferenceError ''handleError is not defined''))"
proof (intro conjI impI)
  assume "heroes_query d 1 q = Inl e"
  then show "get_heroes d q = Uncaught (ReferenceError ''handleError is not defined'')"
    by (simp add: get_heroes_def sort_value_asc heroes_callback_def call_handleError_def)
next
  assume "findById d 0 i = Inl e"
  then show "get_hero d i = Uncaught (ReferenceError ''handleError is not defined'')"
    by (simp add: get_hero_def hero_callback_def call_handleError_def)
next
  assume "sort_value s = Some (Direction dir) \<and> heroes_query d dir q = Inl e"
  then show "search_by_name d s q = Uncaught (ReferenceError ''handleError is not defined'')"
    by (simp add: search_by_name_def heroes_callback_def call_handleError_def)
next
  assume "sort_value s = Some Unchecked"
  then show "search_by_name d s q = Uncaught (ReferenceError ''handleError is not defined'')"
    by (simp add: search_by_name_def refused_query_def heroes_callback_def call_handleError_def)
next
  assume "min_stats_query d b q = Inl e"
  then show "search_by_min_stats d b q = Uncaught (ReferenceError ''handleError is not defined'')"
    by (simp add: search_by_min_stats_def heroes_callback_def call_handleError_def)
next
  assume "findById d 0 i = Inl e"
  then show "post_comment d i t n now =
      (Uncaught (ReferenceError ''handleError is not defined''), d)"
    by (simp add: post_comment_def call_handleError_def)
next
  assume "findById d 0 i = Inr (Some h) \<and>
      save_comment d 1 \<lparr>comment_id = n, comment_hero = hero_id h, comment_text = t,
                         createdAt = now, updatedAt = now\<rparr> = Inl e"
  then show "post_comment d i t n now =
      (Uncaught (ReferenceError ''handleError is not defined''), d)"
    by (simp add: post_comment_def call_handleError_def)
next
  assume "findById d 0 i = Inl e"
  then show "get_comments d i q = Uncaught (ReferenceError ''handleError is not defined'')"
    by (simp add: get_comments_def call_handleError_def)
next
  assume "findById d 0 i = Inr (Some h) \<and> comments_query d h q = Inl e"
  then show "get_comments d i q = Uncaught (ReferenceError ''handleError is not defined'')"
    by (simp add: get_comments_def comments_callback_def call_handleError_def)
qed

theorem error_branch_raises_reference_error_witness:
  "heroes_query unreachable 1 None = Inl NetworkError
   \<and> get_heroes unreachable None = Uncaught (ReferenceError ''handleError is not defined'')
   \<and> findById unreachable 0 ''abc'' = Inl CastError
   \<and> get_hero unreachable ''abc'' = Uncaught (ReferenceError ''handleError is not defined'')
   \<and> sort_value (Some ''desc'') = Some (Direction (- 1))
   \<and> heroes_query unreachable (- 1) None = Inl NetworkError
   \<and> search_by_name unreachable (Some ''desc'') None =
        Uncaught (ReferenceError ''handleError is not defined'')
   \<and> sort_value (Some ''constructor'') = Some Unchecked
   \<and> search_by_name two_heroes (Some ''constructor'') None =
        Uncaught (ReferenceError ''handleError is not defined'')
   \<and> min_stats_query unreachable no_stats None = Inl NetworkError
   \<and> search_by_min_stats unreachable no_stats None =
        Uncaught (ReferenceError ''handleError is not defined'')
   \<and> post_comment unreachable ''abc'' None (oid_of 9) 5 =
        (Uncaught (ReferenceError ''handleError is not defined''), unreachable)
   \<and> findById lost_after_lookup 0 ''000000000000000000000001'' = Inr (Some flash)
   \<and> save_comment lost_after_lookup 1
        \<lparr>comment_id = oid_of 9, comment_hero = hero_id flash, comment_text = None,
         createdAt = 5, updatedAt = 5\<rparr> = Inl NetworkError
   \<and> post_comment lost_after_lookup ''000000000000000000000001'' None (oid_of 9) 5 =
        (Uncaught (ReferenceError ''handleError is not defined''), lost_after_lookup)
   \<and> get_comments unreachable ''abc'' None =
        Uncaught (ReferenceError ''handleError is not defined'')
   \<and> comments_query lost_after_lookup flash None = Inl NetworkError
   \<and> get_comments lost_after_lookup ''000000000000000000000001'' None =
        Uncaught (ReferenceError ''handleError is not defined'')"
proof -
  have a: "heroes_query unreachable 1 None = Inl NetworkError"
    by code_simp
  have b: "findById unreachable 0 ''abc'' = Inl CastError"
    by code_simp
  have c1: "sort_value (Some ''desc'') = Some (Direction (- 1))"
    by code_simp
  have c2: "heroes_query unreachable (- 1) None = Inl NetworkError"
    by code_simp
  have u: "sort_value (Some ''constructor'') = Some Unchecked"
    by code_simp
  have m: "min_stats_query unreachable no_stats None = Inl NetworkError"
    by code_simp
  have f: "findById lost_after_lookup 0 ''000000000000000000000001'' = Inr (Some flash)"
    by code_simp
  have s: "save_comment lost_after_lookup 1
        \<lparr>comment_id = oid_of 9, comment_hero = hero_id flash, comment_text = None,
         createdAt = 5, updatedAt = 5\<rparr> = Inl NetworkError"
    by code_simp
  have g: "comments_query lost_after_lookup flash None = Inl NetworkError"
    by code_simp
  note down = error_branch_raises_reference_error
    [where d = unreachable and e = NetworkError and q = None and dir = "- 1"
       and s = "Some ''desc''" and b = no_stats]
  note cast = error_branch_raises_reference_error
    [where d = unreachable and e = CastError and i = "''abc''" and q = None
       and t = None and n = "oid_of 9" and now = 5]
  note lost = error_branch_raises_reference_error
    [where d = lost_after_lookup and e = NetworkError and i = "''000000000000000000000001''"
       and q = None and t = None and n = "oid_of 9" and now = 5 and h = flash]
  from down a have r1: "get_heroes unreachable None =
      Uncaught (ReferenceError ''handleError is not defined'')"
    by blast
  from cast b have r2: "get_hero unreachable ''abc'' =
      Uncaught (ReferenceError ''handleError is not defined'')"
    by blast
  from down c1 c2 have r3: "search_by_name unreachable (Some ''desc'') None =
      Uncaught (ReferenceError ''handleError is not defined'')"
    by blast
  from error_branch_raises_reference_error
    [where d = two_heroes and s = "Some ''constructor''" and q = None] u
  have r3u: "search_by_name two_heroes (Some ''constructor'') None =
      Uncaught (ReferenceError ''handleError is not defined'')"
    by blast
  from down m have r4: "search_by_min_stats unreachable no_stats None =
      Uncaught (ReferenceError ''handleError is not defined'')"
    by blast
  from cast b have r5: "post_comment unreachable ''abc'' None (oid_of 9) 5 =
      (Uncaught (ReferenceError ''handleError is not defined''), unreachable)"
    by blast
  from lost f s have r6: "post_comment lost_after_lookup ''000000000000000000000001'' None (oid_of 9) 5 =
      (Uncaught (ReferenceError ''handleError is not defined''), lost_after_lookup)"
    by blast
  from cast b have r7: "get_comments unreachable ''abc'' None =
      Uncaught (ReferenceError ''handleError is not defined'')"
    by blast
  from lost f g have r8: "get_comments lost_after_lookup ''000000000000000000000001'' None =
      Uncaught (ReferenceError ''handleError is not defined'')"
    by blast
  from a r1 b r2 c1 c2 r3 u r3u m r4 r5 f s r6 r7 g r8 show ?thesis
    by (intro conjI)
qed

section \<open>POST /search/heroes/by-name\<close>

lemma search_by_name_accepted:
  assumes "\<not> fails d 0" and "sort_value q = Some (Direction dir)" and "1 \<le> p"
  shows "search_by_name d q (Some p) =
         Response 200 (JHeroes (take 10 (drop (10 * nat (p - 1))
           (sort_docs (hero_field ''name'') dir (heroes d)))))"
  using assms
  by (simp add: search_by_name_def heroes_query_page heroes_callback_def res_json_def)

lemma search_by_name_rejected:
  assumes "sort_value q = None"
  shows "search_by_name d q p = Uncaught (TypeError ''Invalid sort value'')"
  using assms by (simp add: search_by_name_def)

text \<open>
  Claim C9, at a failing input. The handler gives the query to \<^verbatim>\<open>sort\<close> as the value for
  the path \<^verbatim>\<open>name\<close>. The query fla is no direction: \<^verbatim>\<open>sort\<close> throws, and the request gets
  no response and no hero. The query asc is answered with every hero of the store. The
  two queries do not return the same heroes, and what fla returns is not the collection.
\<close>

theorem search_by_name_query_changes_answer:
  "search_by_name two_heroes (Some ''fla'') (Some 1) = Uncaught (TypeError ''Invalid sort value'')
   \<and> heroes_of (search_by_name two_heroes (Some ''fla'') (Some 1)) = []
   \<and> heroes_of (search_by_name two_heroes (Some ''asc'') (Some 1)) = [batman, flash]
   \<and> heroes two_heroes = [flash, batman]"
  by code_simp

text \<open>
  Claim C1, at a failing input. The handler gives the query to \<^verbatim>\<open>sort\<close> and filters
  nothing. The query fla ends the request in a TypeError, so Flash, whose name starts
  with it, is not returned; the query asc returns every hero, Batman and Flash included,
  whose names do not start with it.
\<close>

theorem search_by_name_not_a_prefix_filter:
  "spec_name_starts_with ''fla'' flash
   \<and> search_by_name two_heroes (Some ''fla'') None = Uncaught (TypeError ''Invalid sort value'')
   \<and> \<not> spec_name_starts_with ''asc'' batman
   \<and> \<not> spec_name_starts_with ''asc'' flash
   \<and> search_by_name two_heroes (Some ''asc'') None = Response 200 (JHeroes [batman, flash])"
  by code_simp

section \<open>POST /search/heroes/by-min-stats\<close>

lemma stat_paths_outside_schema:
  "cast_conditions True
     [(''intelligence'', a), (''strength'', b), (''speed'', c), (''durability'', e),
      (''power'', f), (''combat'', g)] = []"
  by (simp add: cast_conditions_def in_hero_schema_def hero_paths_def)

lemma stat_path_missing: "\<not> gte_holds h (''intelligence'', a)"
  by (simp add: hero_field_def hero_paths_def)

text \<open>
  Under \<open>strictQuery\<close> the six conditions are dropped and the handler lists the whole
  collection in its own order; without it no hero has the path \<^verbatim>\<open>intelligence\<close>, and the
  handler lists nothing.
\<close>

lemma search_by_min_stats_strict:
  assumes "strictQuery d" and "\<not> fails d 0" and "1 \<le> p"
  shows "search_by_min_stats d b (Some p) =
         Response 200 (JHeroes (take 10 (drop (10 * nat (p - 1)) (heroes d))))"
proof -
  have "nat ((p - 1) * 10) = 10 * nat (p - 1)"
    using assms(3) by (simp add: nat_mult_distrib)
  with assms show ?thesis
    by (simp add: search_by_min_stats_def min_stats_query_def find_heroes_def
        stat_paths_outside_schema page_param_def skip_limit_def heroes_callback_def
        res_json_def DEFAULT_HEROES_PER_PAGE_def)
qed

lemma search_by_min_stats_lax:
  assumes "\<not> strictQuery d" and "\<not> fails d 0" and "1 \<le> p"
  shows "search_by_min_stats d b (Some p) = Response 200 (JHeroes [])"
  using assms
  by (simp add: search_by_min_stats_def min_stats_query_def find_heroes_def
      cast_conditions_def stat_path_missing page_param_def skip_limit_def heroes_callback_def
      res_json_def DEFAULT_HEROES_PER_PAGE_def del: gte_holds.simps)

text \<open>
  Claim C2, at a failing input. The conditions name the paths \<^verbatim>\<open>intelligence\<close>, ...,
  \<^verbatim>\<open>combat\<close>, which no hero document has (the statistics are under \<^verbatim>\<open>powerstats\<close>). With
  \<open>strictQuery\<close> the body of minimum speed 100 and intelligence 95 is answered with both
  heroes, neither of which meets it; without \<open>strictQuery\<close> the empty body is answered with
  no hero, though Flash meets it.
\<close>

theorem search_by_min_stats_wrong_paths:
  "\<not> spec_meets_min_stats stats_95_100 flash
   \<and> \<not> spec_meets_min_stats stats_95_100 batman
   \<and> search_by_min_stats two_heroes stats_95_100 None = Response 200 (JHeroes [flash, batman])
   \<and> spec_meets_min_stats no_stats flash
   \<and> search_by_min_stats (two_heroes\<lparr>strictQuery := False\<rparr>) no_stats None =
       Response 200 (JHeroes [])"
  by code_simp

section \<open>POST /heroes/:id/comments\<close>

lemma post_comment_no_hero:
  assumes "\<And>h. findById d 0 i \<noteq> Inr (Some h)"
  shows "snd (post_comment d i t n now) = d
         \<and> (\<exists>x. fst (post_comment d i t n now) = Uncaught x)"
proof (cases "findById d 0 i")
  case (Inl e)
  then show ?thesis
    by (simp add: post_comment_def call_handleError_def)
next
  case (Inr r)
  with assms have "r = None"
    by (cases r) auto
  with Inr show ?thesis
    by (simp add: post_comment_def null_hero_def)
qed

text \<open>
  Claim C3, at a failing input. The identifier is well formed and no hero has it: the
  lookup gives a null hero, the handler reads \<^verbatim>\<open>hero._id\<close> and the request ends in a
  TypeError without a response, where the claim asks for a not-found error. No comment
  is created, as the claim says.
\<close>

theorem post_comment_unknown_hero:
  "findById two_heroes 0 ''000000000000000000000003'' = Inr None
   \<and> post_comment two_heroes ''000000000000000000000003'' (Some ''hi'') (oid_of 9) 5 =
       (Uncaught (TypeError ''Cannot read properties of null''), two_heroes)"
  by code_simp

section \<open>GET /heroes/:id/comments\<close>

lemma insort_key_constant: "insort_key (\<lambda>x. c) x ys = x # ys"
  by (cases ys) simp_all

lemma sort_key_constant: "sort_key (\<lambda>x. c) xs = xs"
  by (induction xs) (simp_all add: insort_key_constant)

lemma no_timestamps_path: "comment_field ''timestamps'' = (\<lambda>c. BNull)"
  by (rule ext) (simp add: comment_field_def)

text \<open>
  The listing of an existing hero's comments is a window of them in the order of the
  collection: the sort key has the same value, null, on every comment.
\<close>

lemma get_comments_window:
  assumes "findById d 0 i = Inr (Some h)" and "\<not> fails d 1" and "1 \<le> p"
  shows "get_comments d i (Some p) =
         Response 200 (JComments (take 3 (drop (3 * nat (p - 1))
           (filter (\<lambda>c. comment_hero c = hero_id h) (comments d)))))"
proof -
  have "nat ((p - 1) * 3) = 3 * nat (p - 1)"
    using assms(3) by (simp add: nat_mult_distrib)
  moreover have "comment_field ''hero'' = (\<lambda>c. BId (comment_hero c))"
    by (rule ext) (simp add: comment_field_def)
  ultimately show ?thesis
    using assms
    by (simp add: get_comments_def comments_query_def find_comments_def sort_string_def
        no_timestamps_path sort_docs_def sort_key_constant page_param_def skip_limit_def
        comments_callback_def res_json_def DEFAULT_COMMENTS_PER_PAGE_def)
qed

text \<open>
  Claim C4, at a failing input. Flash has two comments, created at 1000 and at 2000. The
  store reads them in that order. The handler sorts by \<^verbatim>\<open>-timestamps\<close>, a path no comment
  has, so the sort leaves that order: the listing is oldest first, where the claim asks
  for the newest first.
\<close>

theorem get_comments_oldest_first:
  "findById commented 0 ''000000000000000000000001'' = Inr (Some flash)
   \<and> get_comments commented ''000000000000000000000001'' None =
       Response 200 (JComments [comment_at 11 1000, comment_at 12 2000])
   \<and> createdAt (comment_at 11 1000) < createdAt (comment_at 12 2000)"
  by code_simp

end
